theory Spec2Isabelle
  imports Complex_Main
begin

section \<open>Data model of the warehouse application\<close>

text \<open>
  The embedding follows \<^verbatim>\<open>streamlit_gudang_app.py\<close>. The two SQLite tables
  \<^verbatim>\<open>items\<close> and \<^verbatim>\<open>transactions\<close> are lists of rows in rowid order.
  Quantities are SQLite \<^verbatim>\<open>REAL\<close> columns filled from Python floats; they are
  modelled as \<^typ>\<open>real\<close>, so rounding of floating point arithmetic is outside the model.
  Strings are lists of ASCII characters. A point in time keeps the fields that
  \<^verbatim>\<open>strftime('%Y%m%d-%H%M%S')\<close> and the calendar date read; microseconds are left out.
\<close>

record timestamp =
  ts_year :: nat
  ts_month :: nat
  ts_day :: nat
  ts_hour :: nat
  ts_minute :: nat
  ts_second :: nat

text \<open>The column \<^verbatim>\<open>trx_type\<close> holds \<^verbatim>\<open>'in'\<close> or \<^verbatim>\<open>'out'\<close>.\<close>

datatype trx_type = IN | OUT

record item =
  i_id :: nat
  i_name :: string
  i_category :: string
  i_unit :: string
  i_quantity :: real
  i_min_stock :: real
  i_rack_location :: string
  i_expiry_date :: "string option"
  i_created_at :: timestamp
  i_updated_at :: timestamp

record movement =
  t_type :: trx_type
  t_item_id :: "nat option"
  t_name :: string
  t_quantity :: real
  t_unit :: string
  t_requester :: "string option"
  t_supplier :: "string option"
  t_note :: string
  t_bundle_code :: string
  t_trx_code :: string
  t_expiry_date :: "string option"
  t_created_at :: timestamp

text \<open>
  The state is the database together with the environment the code reads:
  \<^verbatim>\<open>item_seq\<close> is the largest rowid the \<^verbatim>\<open>AUTOINCREMENT\<close> key of
  \<^verbatim>\<open>items\<close> has handed out, \<^verbatim>\<open>clock\<close> lists the readings that successive calls of
  \<^verbatim>\<open>datetime.now()\<close> return and \<^verbatim>\<open>ticks\<close> counts the readings taken,
  \<^verbatim>\<open>dice\<close> and \<^verbatim>\<open>rolls\<close> do the same for \<^verbatim>\<open>random.randint\<close>.
  The rowid of a transaction is its position in the list, which only grows.
\<close>

record state =
  items :: "item list"
  transactions :: "movement list"
  item_seq :: nat
  clock :: "nat \<Rightarrow> timestamp"
  ticks :: nat
  dice :: "nat \<Rightarrow> nat"
  rolls :: nat

definition datetime_now :: "state \<Rightarrow> timestamp \<times> state" where
  "datetime_now s = (clock s (ticks s), s\<lparr>ticks := Suc (ticks s)\<rparr>)"

text \<open>\<^verbatim>\<open>random.randint(100,999)\<close>: a draw between 100 and 999, both included.\<close>

definition randint_100_999 :: "state \<Rightarrow> nat \<times> state" where
  "randint_100_999 s = (100 + dice s (rolls s) mod 900, s\<lparr>rolls := Suc (rolls s)\<rparr>)"

section \<open>Helpers\<close>

text \<open>
  \<^verbatim>\<open>str.strip()\<close> removes leading and trailing whitespace; on ASCII,
  \<^verbatim>\<open>str.isspace\<close> holds for the codes 9 to 13, 28 to 31 and 32.
\<close>

definition whitespace :: "char list" where
  "whitespace = [CHR 0x09, CHR 0x0A, CHR 0x0B, CHR 0x0C, CHR 0x0D,
                 CHR 0x1C, CHR 0x1D, CHR 0x1E, CHR 0x1F, CHR 0x20]"

definition isspace :: "char \<Rightarrow> bool" where
  "isspace c = (c \<in> set whitespace)"

definition strip :: "string \<Rightarrow> string" where
  "strip s = rev (dropWhile isspace (rev (dropWhile isspace s)))"

text \<open>Decimal rendering with a fixed number of digits, as \<^verbatim>\<open>%m\<close>, \<^verbatim>\<open>%d\<close> and so on give.\<close>

definition digit_char :: "nat \<Rightarrow> char" where
  "digit_char d = ''0123456789'' ! (d mod 10)"

definition pad_dec :: "nat \<Rightarrow> nat \<Rightarrow> string" where
  "pad_dec w n = map (\<lambda>i. digit_char (n div 10 ^ i)) (rev [0..<w])"

definition strftime :: "timestamp \<Rightarrow> string" where
  "strftime t = pad_dec 4 (ts_year t) @ pad_dec 2 (ts_month t) @ pad_dec 2 (ts_day t) @ ''-''
     @ pad_dec 2 (ts_hour t) @ pad_dec 2 (ts_minute t) @ pad_dec 2 (ts_second t)"

definition upper_type :: "trx_type \<Rightarrow> string" where
  "upper_type ty = (case ty of IN \<Rightarrow> ''IN'' | OUT \<Rightarrow> ''OUT'')"

text \<open>
  \<^verbatim>\<open>generate_trx_code\<close>: the clock is read first, the random suffix (three digits, as
  the draw lies between 100 and 999) is drawn while the string is formatted.
\<close>

definition generate_trx_code :: "trx_type \<Rightarrow> state \<Rightarrow> string \<times> state" where
  "generate_trx_code ty s =
     (case datetime_now s of (t, s1) \<Rightarrow>
      case randint_100_999 s1 of (r, s2) \<Rightarrow>
        (''TRX-'' @ upper_type ty @ ''-'' @ strftime t @ ''-'' @ pad_dec 3 r, s2))"

subsection \<open>The SQL statements on the table of items\<close>

text \<open>
  \<^verbatim>\<open>SELECT ... FROM items WHERE name=? AND unit=?\<close> followed by \<^verbatim>\<open>fetchone()\<close>:
  the first matching row, if any.
\<close>

definition select_item :: "item list \<Rightarrow> string \<Rightarrow> string \<Rightarrow> item option" where
  "select_item tbl name unit = find (\<lambda>r. i_name r = name \<and> i_unit r = unit) tbl"

text \<open>The \<^verbatim>\<open>UPDATE items SET ... WHERE id=?\<close> of \<^verbatim>\<open>upsert_item\<close>.\<close>

definition update_item ::
  "nat \<Rightarrow> real \<Rightarrow> string \<Rightarrow> real \<Rightarrow> string \<Rightarrow> string option \<Rightarrow> timestamp
     \<Rightarrow> item list \<Rightarrow> item list" where
  "update_item item_id new_quantity category min_stock rack_location expiry_date t tbl =
     map (\<lambda>r. if i_id r = item_id
               then r\<lparr>i_quantity := new_quantity, i_category := category,
                      i_min_stock := min_stock, i_rack_location := rack_location,
                      i_expiry_date := expiry_date, i_created_at := t, i_updated_at := t\<rparr>
               else r) tbl"

text \<open>\<^verbatim>\<open>UPDATE items SET quantity=? WHERE id=?\<close> of \<^verbatim>\<open>adjust_item_for_out\<close>.\<close>

definition update_quantity :: "nat \<Rightarrow> real \<Rightarrow> item list \<Rightarrow> item list" where
  "update_quantity item_id new_quantity tbl =
     map (\<lambda>r. if i_id r = item_id then r\<lparr>i_quantity := new_quantity\<rparr> else r) tbl"

text \<open>
  The rowid an \<^verbatim>\<open>AUTOINCREMENT\<close> key gives to an inserted row: one more than the
  largest rowid that has ever been in the table.
\<close>

definition next_rowid :: "state \<Rightarrow> nat" where
  "next_rowid s = Suc (fold max (map i_id (items s)) (item_seq s))"

section \<open>The item store\<close>

definition upsert_item ::
  "string \<Rightarrow> string \<Rightarrow> string \<Rightarrow> real \<Rightarrow> real \<Rightarrow> string \<Rightarrow> string option
     \<Rightarrow> state \<Rightarrow> nat \<times> state" where
  "upsert_item name0 category unit quantity min_stock rack_location expiry_date s =
     (let name = strip name0 in
      case datetime_now s of (t, s1) \<Rightarrow>
      case select_item (items s1) name unit of
        Some row \<Rightarrow>
          (let item_id = i_id row;
               new_quantity = i_quantity row + quantity
           in (item_id,
               s1\<lparr>items := update_item item_id new_quantity category min_stock
                                rack_location expiry_date t (items s1)\<rparr>))
      | None \<Rightarrow>
          (let new_id = next_rowid s1
           in (new_id,
               s1\<lparr>items := items s1 @
                      [\<lparr>i_id = new_id, i_name = name, i_category = category, i_unit = unit,
                        i_quantity = quantity, i_min_stock = min_stock,
                        i_rack_location = rack_location, i_expiry_date = expiry_date,
                        i_created_at = t, i_updated_at = t\<rparr>],
                  item_seq := new_id\<rparr>)))"

text \<open>
  \<^verbatim>\<open>adjust_item_for_out\<close> returns \<^verbatim>\<open>(None, message)\<close> or \<^verbatim>\<open>(item_id, None)\<close>;
  the message \<^verbatim>\<open>"Stok tidak cukup: tersedia {}"\<close> carries the stock found.
\<close>

datatype adjust_error = Item_tidak_ditemukan | Stok_tidak_cukup real

definition adjust_item_for_out ::
  "string \<Rightarrow> string \<Rightarrow> real \<Rightarrow> state \<Rightarrow> (adjust_error + nat) \<times> state" where
  "adjust_item_for_out name unit quantity s =
     (case select_item (items s) name unit of
        None \<Rightarrow> (Inl Item_tidak_ditemukan, s)
      | Some row \<Rightarrow>
          if i_quantity row < quantity
          then (Inl (Stok_tidak_cukup (i_quantity row)), s)
          else (Inr (i_id row),
                s\<lparr>items := update_quantity (i_id row) (i_quantity row - quantity) (items s)\<rparr>))"

definition add_transaction_record ::
  "trx_type \<Rightarrow> nat option \<Rightarrow> string \<Rightarrow> real \<Rightarrow> string \<Rightarrow> string option \<Rightarrow> string option
     \<Rightarrow> string \<Rightarrow> string \<Rightarrow> string \<Rightarrow> string option \<Rightarrow> state \<Rightarrow> state" where
  "add_transaction_record ty item_id name quantity unit requester supplier note
       bundle_code trx_code expiry_date s =
     (case datetime_now s of (t, s1) \<Rightarrow>
        s1\<lparr>transactions := transactions s1 @
             [\<lparr>t_type = ty, t_item_id = item_id, t_name = name, t_quantity = quantity,
               t_unit = unit, t_requester = requester, t_supplier = supplier, t_note = note,
               t_bundle_code = bundle_code, t_trx_code = trx_code,
               t_expiry_date = expiry_date, t_created_at = t\<rparr>]\<rparr>)"

section \<open>The forms of the ledger\<close>

text \<open>
  What a submitted form shows: \<^verbatim>\<open>st.success\<close> with the transaction code, or
  \<^verbatim>\<open>st.error\<close> with a message. The messages keep the values the source formats into
  them.
\<close>

datatype reason = Item_hilang | Stok_diminta real real

datatype message =
    Fields_required
  | No_items
  | Requester_required
  | Rows_invalid "nat list"
  | Not_in_inventory
  | Stock_short real real
  | Batch_rejected "(string \<times> reason) list"

datatype outcome = Success string | Failed message

text \<open>
  Form \<^verbatim>\<open>in_single\<close>. The code is generated while the form is drawn, before the
  submit button is looked at; the expiry date typed into the form is not passed on.
\<close>

definition in_single ::
  "string \<Rightarrow> string \<Rightarrow> real \<Rightarrow> string \<Rightarrow> real \<Rightarrow> string \<Rightarrow> string
     \<Rightarrow> state \<Rightarrow> outcome \<times> state" where
  "in_single name unit quantity category min_stock supplier rack_location s =
     (case generate_trx_code IN s of (trx_code, s1) \<Rightarrow>
        if name = [] \<or> quantity \<le> 0 \<or> unit = []
        then (Failed Fields_required, s1)
        else
          (case upsert_item name category unit quantity min_stock rack_location None s1 of
             (item_id, s2) \<Rightarrow>
               (Success trx_code,
                add_transaction_record IN (Some item_id) name quantity unit None
                  (Some supplier) ''Single-item masuk'' trx_code trx_code None s2)))"

text \<open>A row of \<^verbatim>\<open>st.session_state.in_multi\<close>, as the form stores it before the submit.\<close>

record in_line =
  l_name :: string
  l_unit :: string
  l_quantity :: real
  l_category :: string
  l_min_stock :: real
  l_rack_location :: string
  l_expiry_date :: string

text \<open>
  The validation loop over \<^verbatim>\<open>enumerate(rows)\<close>: the numbers \<^verbatim>\<open>idx+1\<close> of the rows
  whose name or unit is empty or whose quantity is not positive.
\<close>

definition bad_rows :: "(string \<times> real \<times> string) list \<Rightarrow> nat list" where
  "bad_rows rows =
     map (\<lambda>(idx, r). Suc idx)
       (filter (\<lambda>(idx, (name, quantity, unit)). name = [] \<or> quantity \<le> 0 \<or> unit = [])
          (enumerate 0 rows))"

definition in_multi_step :: "string \<Rightarrow> string \<Rightarrow> string \<Rightarrow> in_line \<Rightarrow> state \<Rightarrow> state" where
  "in_multi_step trx_code supplier note it s =
     (case upsert_item (l_name it) (l_category it) (l_unit it) (l_quantity it) (l_min_stock it)
             (l_rack_location it) (Some (l_expiry_date it)) s of
        (item_id, s1) \<Rightarrow>
          add_transaction_record IN (Some item_id) (l_name it) (l_quantity it) (l_unit it) None
            (Some supplier) note trx_code trx_code None s1)"

definition in_multi_form :: "string \<Rightarrow> string \<Rightarrow> in_line list \<Rightarrow> state \<Rightarrow> outcome \<times> state" where
  "in_multi_form supplier note rows s =
     (if rows = [] then (Failed No_items, s)
      else
        (let errors = bad_rows (map (\<lambda>it. (l_name it, l_quantity it, l_unit it)) rows) in
         if errors \<noteq> [] then (Failed (Rows_invalid errors), s)
         else
           (case generate_trx_code IN s of (trx_code, s1) \<Rightarrow>
              (Success trx_code, fold (in_multi_step trx_code supplier note) rows s1))))"

text \<open>Form \<^verbatim>\<open>out_single\<close>.\<close>

definition out_single ::
  "string \<Rightarrow> string \<Rightarrow> real \<Rightarrow> string \<Rightarrow> string \<Rightarrow> state \<Rightarrow> outcome \<times> state" where
  "out_single name unit quantity requester note s =
     (case generate_trx_code OUT s of (trx_code, s1) \<Rightarrow>
        if name = [] \<or> quantity \<le> 0 \<or> unit = [] \<or> requester = []
        then (Failed Fields_required, s1)
        else
          (case select_item (items s1) name unit of
             None \<Rightarrow> (Failed Not_in_inventory, s1)
           | Some row \<Rightarrow>
               if i_quantity row < quantity
               then (Failed (Stock_short (i_quantity row) quantity), s1)
               else
                 (case adjust_item_for_out name unit quantity s1 of
                    (res, s2) \<Rightarrow>
                      (Success trx_code,
                       add_transaction_record OUT (case res of Inl e \<Rightarrow> None | Inr i \<Rightarrow> Some i)
                         name quantity unit (Some requester) None note trx_code trx_code None
                         s2))))"

text \<open>A row of \<^verbatim>\<open>st.session_state.out_multi\<close>.\<close>

record out_line =
  o_name :: string
  o_unit :: string
  o_quantity :: real
  o_note :: string

text \<open>
  The stock check of form \<^verbatim>\<open>out_multi_form\<close>: one pass over the rows, each looked up in
  the table as it is when the form is submitted.
\<close>

definition insufficient :: "item list \<Rightarrow> out_line list \<Rightarrow> (string \<times> reason) list" where
  "insufficient tbl rows =
     concat (map (\<lambda>it.
        case select_item tbl (o_name it) (o_unit it) of
          None \<Rightarrow> [(o_name it, Item_hilang)]
        | Some row \<Rightarrow>
            if i_quantity row < o_quantity it
            then [(o_name it, Stok_diminta (i_quantity row) (o_quantity it))]
            else []) rows)"

text \<open>The apply loop: the message that \<^verbatim>\<open>adjust_item_for_out\<close> returns is dropped.\<close>

definition out_multi_step :: "string \<Rightarrow> string \<Rightarrow> out_line \<Rightarrow> state \<Rightarrow> state" where
  "out_multi_step trx_code requester it s =
     (case adjust_item_for_out (o_name it) (o_unit it) (o_quantity it) s of
        (res, s1) \<Rightarrow>
          add_transaction_record OUT (case res of Inl e \<Rightarrow> None | Inr i \<Rightarrow> Some i)
            (o_name it) (o_quantity it) (o_unit it) (Some requester) None (o_note it)
            trx_code trx_code None s1)"

definition out_multi_form :: "string \<Rightarrow> out_line list \<Rightarrow> state \<Rightarrow> outcome \<times> state" where
  "out_multi_form requester rows s =
     (if rows = [] then (Failed No_items, s)
      else if requester = [] then (Failed Requester_required, s)
      else
        (let bad = bad_rows (map (\<lambda>it. (o_name it, o_quantity it, o_unit it)) rows) in
         if bad \<noteq> [] then (Failed (Rows_invalid bad), s)
         else
           (let short = insufficient (items s) rows in
            if short \<noteq> [] then (Failed (Batch_rejected short), s)
            else
              (case generate_trx_code OUT s of (trx_code, s1) \<Rightarrow>
                 (Success trx_code, fold (out_multi_step trx_code requester) rows s1)))))"

text \<open>
  A ledger operation is one submitted form; a run keeps every state it passes through,
  the first one included.
\<close>

datatype ledger_op =
    Receive_single string string real string real string string
  | Receive_batch string string "in_line list"
  | Issue_single string string real string string
  | Issue_batch string "out_line list"

definition apply_op :: "ledger_op \<Rightarrow> state \<Rightarrow> state" where
  "apply_op op s =
     (case op of
        Receive_single name unit quantity category min_stock supplier rack_location \<Rightarrow>
          snd (in_single name unit quantity category min_stock supplier rack_location s)
      | Receive_batch supplier note rows \<Rightarrow> snd (in_multi_form supplier note rows s)
      | Issue_single name unit quantity requester note \<Rightarrow>
          snd (out_single name unit quantity requester note s)
      | Issue_batch requester rows \<Rightarrow> snd (out_multi_form requester rows s))"

primrec run :: "ledger_op list \<Rightarrow> state \<Rightarrow> state list" where
  "run [] s = [s]"
| "run (op # ops) s = s # run ops (apply_op op s)"

definition nonneg_stock :: "state \<Rightarrow> bool" where
  "nonneg_stock s = list_all (\<lambda>r. 0 \<le> i_quantity r) (items s)"

section \<open>Bulk import\<close>

text \<open>
  \<^verbatim>\<open>load_inventory_from_excel\<close> reads a sheet into a data frame. \<^verbatim>\<open>columns\<close> are the
  keys of \<^verbatim>\<open>df_columns\<close>, the lower-cased column names. A numeric cell is a number,
  empty (\<^verbatim>\<open>pd.isna\<close>) or a value that \<^verbatim>\<open>float()\<close> rejects; an expiry cell is a
  timestamp (kept as the text of its date), empty, or a value without \<^verbatim>\<open>.date()\<close>.
  A text column holds what \<^verbatim>\<open>str()\<close> gives for the cell.
\<close>

datatype cell = Num real | NaN | Not_a_number

datatype date_cell = Date string | NaT | Not_a_date

datatype py_error = ValueError | AttributeError

record sheet_row =
  x_name :: string
  x_quantity :: cell
  x_unit :: string
  x_category :: string
  x_min_stock :: cell
  x_rack_location :: string
  x_expiry_date :: date_cell

record sheet =
  columns :: "string list"
  sheet_rows :: "sheet_row list"

text \<open>One turn of the loop over \<^verbatim>\<open>df.iterrows()\<close>, up to the call of \<^verbatim>\<open>upsert_item\<close>.\<close>

definition import_row :: "string list \<Rightarrow> sheet_row \<Rightarrow> state \<Rightarrow> py_error + state" where
  "import_row cols row s =
     (let name = strip (x_name row) in
      case (case x_quantity row of NaN \<Rightarrow> Inr 0 | Num q \<Rightarrow> Inr q
            | Not_a_number \<Rightarrow> Inl ValueError) of
        Inl e \<Rightarrow> Inl e
      | Inr quantity \<Rightarrow>
      (let unit = strip (x_unit row);
           category = (if ''category'' \<in> set cols then strip (x_category row) else [])
       in
       case (if ''min_stock'' \<in> set cols
             then (case x_min_stock row of NaN \<Rightarrow> Inr 0 | Num m \<Rightarrow> Inr m
                   | Not_a_number \<Rightarrow> Inl ValueError)
             else Inr 0) of
         Inl e \<Rightarrow> Inl e
       | Inr min_stock \<Rightarrow>
       (let rack_location =
              (if ''rack_location'' \<in> set cols then strip (x_rack_location row) else [])
        in
        case (if ''expiry_date'' \<in> set cols
              then (case x_expiry_date row of NaT \<Rightarrow> Inr None | Date d \<Rightarrow> Inr (Some d)
                    | Not_a_date \<Rightarrow> Inl AttributeError)
              else Inr None) of
          Inl e \<Rightarrow> Inl e
        | Inr expiry_date \<Rightarrow>
            Inr (snd (upsert_item name category unit quantity min_stock rack_location
                        expiry_date s)))))"

text \<open>
  The loop: an exception leaves the loop; the rows before it stay committed, since
  \<^verbatim>\<open>upsert_item\<close> commits each of them.
\<close>

primrec import_rows ::
  "string list \<Rightarrow> sheet_row list \<Rightarrow> nat \<Rightarrow> state \<Rightarrow> (py_error + nat) \<times> state" where
  "import_rows cols [] inserted s = (Inr inserted, s)"
| "import_rows cols (row # rest) inserted s =
     (case import_row cols row s of
        Inl e \<Rightarrow> (Inl e, s)
      | Inr s1 \<Rightarrow> import_rows cols rest (inserted + 1) s1)"

definition load_inventory_from_excel :: "sheet \<Rightarrow> state \<Rightarrow> (py_error + nat) \<times> state" where
  "load_inventory_from_excel df s =
     (if list_ex (\<lambda>r. r \<notin> set (columns df)) [''name'', ''quantity'', ''unit'']
      then (Inl ValueError, s)
      else import_rows (columns df) (sheet_rows df) 0 s)"

section \<open>Reports\<close>

text \<open>
  The data frame of \<^verbatim>\<open>load_transactions_df\<close> is the list of transactions; its column
  \<^verbatim>\<open>date\<close> is the calendar date of \<^verbatim>\<open>created_at\<close>, and the month of a row is the
  year and month of it.
\<close>

type_synonym date = "nat \<times> nat \<times> nat"

definition date_of :: "timestamp \<Rightarrow> date" where
  "date_of t = (ts_year t, ts_month t, ts_day t)"

definition date_le :: "date \<Rightarrow> date \<Rightarrow> bool" where
  "date_le a b =
     (case a of (y1, m1, d1) \<Rightarrow> case b of (y2, m2, d2) \<Rightarrow>
        y1 < y2 \<or> (y1 = y2 \<and> (m1 < m2 \<or> (m1 = m2 \<and> d1 \<le> d2))))"

text \<open>The mask of \<^verbatim>\<open>totals_for_period\<close>: a bound that is \<^verbatim>\<open>None\<close> does not restrict.\<close>

definition mask :: "date option \<Rightarrow> date option \<Rightarrow> movement \<Rightarrow> bool" where
  "mask date_from date_to t =
     ((case date_from of None \<Rightarrow> True | Some d \<Rightarrow> date_le d (date_of (t_created_at t)))
      \<and> (case date_to of None \<Rightarrow> True | Some d \<Rightarrow> date_le (date_of (t_created_at t)) d))"

text \<open>
  \<^verbatim>\<open>groupby(['name','unit'])['quantity'].sum()\<close>: a total for every key that occurs.
\<close>

definition groupby_sum :: "movement list \<Rightarrow> (string \<times> string) \<Rightarrow> real option" where
  "groupby_sum df k =
     (if k \<in> set (map (\<lambda>t. (t_name t, t_unit t)) df)
      then Some (sum_list (map t_quantity (filter (\<lambda>t. (t_name t, t_unit t) = k) df)))
      else None)"

definition fillna0 :: "real option \<Rightarrow> real" where
  "fillna0 v = (case v of None \<Rightarrow> 0 | Some x \<Rightarrow> x)"

text \<open>The outer merge of the two totals on the key, followed by \<^verbatim>\<open>fillna(0)\<close>.\<close>

definition merge_outer ::
  "((string \<times> string) \<Rightarrow> real option) \<Rightarrow> ((string \<times> string) \<Rightarrow> real option)
     \<Rightarrow> (string \<times> string) \<Rightarrow> (real \<times> real) option" where
  "merge_outer masuk keluar k =
     (if masuk k = None \<and> keluar k = None then None
      else Some (fillna0 (masuk k), fillna0 (keluar k)))"

record totals_row =
  r_name :: string
  r_unit :: string
  total_masuk :: real
  total_keluar :: real
  stok_akhir :: real

text \<open>
  \<^verbatim>\<open>totals_for_period\<close>: the right merge with the table of items gives one row for
  every row of the table, in the order of the table; the totals a key does not have
  are filled with 0.
\<close>

definition totals_for_period ::
  "state \<Rightarrow> movement list \<Rightarrow> date option \<Rightarrow> date option \<Rightarrow> totals_row list" where
  "totals_for_period s df date_from date_to =
     (if df = []
      then map (\<lambda>r. \<lparr>r_name = i_name r, r_unit = i_unit r, total_masuk = 0,
                       total_keluar = 0, stok_akhir = i_quantity r\<rparr>) (items s)
      else
        (let period_df = filter (mask date_from date_to) df;
             masuk = groupby_sum (filter (\<lambda>t. t_type t = IN) period_df);
             keluar = groupby_sum (filter (\<lambda>t. t_type t = OUT) period_df);
             merged = merge_outer masuk keluar
         in map (\<lambda>r.
              case merged (i_name r, i_unit r) of
                None \<Rightarrow> \<lparr>r_name = i_name r, r_unit = i_unit r, total_masuk = 0,
                          total_keluar = 0, stok_akhir = i_quantity r\<rparr>
              | Some (tin, tout) \<Rightarrow>
                  \<lparr>r_name = i_name r, r_unit = i_unit r, total_masuk = tin,
                    total_keluar = tout, stok_akhir = i_quantity r\<rparr>) (items s)))"

text \<open>
  \<^verbatim>\<open>compare_months\<close>. Its second line calls \<^verbatim>\<open>.dt.to_created_at()\<close> on the column of
  monthly periods. The period accessor of pandas has \<^verbatim>\<open>to_timestamp\<close>, which
  \<^verbatim>\<open>load_transactions_df\<close> calls for the same purpose, and no attribute
  \<^verbatim>\<open>to_created_at\<close>: the lookup raises \<^verbatim>\<open>AttributeError\<close>.
\<close>

type_synonym month = "nat \<times> nat"

definition to_created_at :: "month list \<Rightarrow> py_error + month list" where
  "to_created_at periods = Inl AttributeError"

definition month_start :: "movement list \<Rightarrow> py_error + (month \<times> movement) list" where
  "month_start df =
     (case to_created_at (map (\<lambda>t. (ts_year (t_created_at t), ts_month (t_created_at t))) df) of
        Inl e \<Rightarrow> Inl e
      | Inr ms \<Rightarrow> Inr (zip ms df))"

record cmp_row =
  c_name :: string
  c_month_a :: "real option"
  c_month_b :: "real option"
  c_difference :: "real option"
  c_pct_change :: "real option"

text \<open>
  The lines after it: the selection, the pivot with one row for every name and one
  column for every month that occurs in the selection, and the two computed columns,
  which exist when both months are columns. A column that is absent is \<^verbatim>\<open>None\<close>
  here, and so is a percentage the lambda gives as \<^verbatim>\<open>None\<close>. The rows are listed by
  first occurrence of the name.
\<close>

definition pivot_compare ::
  "(month \<times> movement) list \<Rightarrow> month \<Rightarrow> month \<Rightarrow> string list \<Rightarrow> cmp_row list" where
  "pivot_compare df_month month_a month_b items_list =
     (let sel0 = filter (\<lambda>(m, t). (m = month_a \<or> m = month_b) \<and> t_type t = OUT) df_month;
          sel = (if items_list \<noteq> [] then filter (\<lambda>(m, t). t_name t \<in> set items_list) sel0
                 else sel0);
          total = (\<lambda>n m. sum_list (map (\<lambda>(m', t). t_quantity t)
                     (filter (\<lambda>(m', t). m' = m \<and> t_name t = n) sel)));
          has_a = (month_a \<in> set (map fst sel));
          has_b = (month_b \<in> set (map fst sel))
      in map (\<lambda>n.
           \<lparr>c_name = n,
            c_month_a = (if has_a then Some (total n month_a) else None),
            c_month_b = (if has_b then Some (total n month_b) else None),
            c_difference =
              (if has_a \<and> has_b then Some (total n month_b - total n month_a) else None),
            c_pct_change =
              (if has_a \<and> has_b \<and> total n month_a \<noteq> 0
               then Some ((total n month_b - total n month_a) / total n month_a * 100)
               else None)\<rparr>)
           (remdups (map (\<lambda>(m, t). t_name t) sel)))"

definition compare_months ::
  "movement list \<Rightarrow> month \<Rightarrow> month \<Rightarrow> string list \<Rightarrow> py_error + cmp_row list" where
  "compare_months df month_a month_b items_list =
     (case month_start df of
        Inl e \<Rightarrow> Inl e
      | Inr df_month \<Rightarrow> Inr (pivot_compare df_month month_a month_b items_list))"

section \<open>Example data\<close>

definition t0 :: timestamp where
  "t0 = \<lparr>ts_year = 2024, ts_month = 1, ts_day = 15, ts_hour = 9, ts_minute = 30,
          ts_second = 0\<rparr>"

definition item_of :: "nat \<Rightarrow> string \<Rightarrow> string \<Rightarrow> real \<Rightarrow> item" where
  "item_of n name unit quantity =
     \<lparr>i_id = n, i_name = name, i_category = [], i_unit = unit, i_quantity = quantity,
      i_min_stock = 0, i_rack_location = [], i_expiry_date = None, i_created_at = t0,
      i_updated_at = t0\<rparr>"

definition store_of :: "item list \<Rightarrow> state" where
  "store_of tbl =
     \<lparr>items = tbl, transactions = [], item_seq = length tbl,
      clock = (\<lambda>n. t0\<lparr>ts_hour := 10, ts_second := n mod 60\<rparr>), ticks = 0,
      dice = (\<lambda>n. 0), rolls = 0\<rparr>"

text \<open>
  The totals as the specification words them: the sum of the quantities of the
  movements of one type for one name and unit whose date lies in the window, both
  ends included, a missing end being no restriction.
\<close>

definition spec_in_window :: "date option \<Rightarrow> date option \<Rightarrow> date \<Rightarrow> bool" where
  "spec_in_window date_from date_to d =
     ((case date_from of None \<Rightarrow> True | Some lo \<Rightarrow> date_le lo d)
      \<and> (case date_to of None \<Rightarrow> True | Some hi \<Rightarrow> date_le d hi))"

definition spec_total ::
  "trx_type \<Rightarrow> date option \<Rightarrow> date option \<Rightarrow> string \<Rightarrow> string \<Rightarrow> movement list \<Rightarrow> real" where
  "spec_total ty date_from date_to name unit df =
     sum_list (map t_quantity
       (filter (\<lambda>t. t_type t = ty \<and> t_name t = name \<and> t_unit t = unit
                  \<and> spec_in_window date_from date_to (date_of (t_created_at t))) df))"

definition out_move :: "string \<Rightarrow> real \<Rightarrow> nat \<Rightarrow> movement" where
  "out_move name quantity m =
     \<lparr>t_type = OUT, t_item_id = Some 1, t_name = name, t_quantity = quantity, t_unit = ''kg'',
      t_requester = Some ''Budi'', t_supplier = None, t_note = [], t_bundle_code = ''TRX'',
      t_trx_code = ''TRX'', t_expiry_date = None, t_created_at = t0\<lparr>ts_month := m\<rparr>\<rparr>"

text \<open>
  A line of a batch issue fails the stock check against a table when the table has no
  row for its name and unit, or the first such row holds less than the line asks for;
  the reason reported for such a line names which of the two it is.
\<close>

definition fails_stock_check :: "item list \<Rightarrow> out_line \<Rightarrow> bool" where
  "fails_stock_check tbl it =
     (case select_item tbl (o_name it) (o_unit it) of
        None \<Rightarrow> True
      | Some row \<Rightarrow> i_quantity row < o_quantity it)"

definition reason_for :: "item list \<Rightarrow> out_line \<Rightarrow> string \<times> reason" where
  "reason_for tbl it =
     (case select_item tbl (o_name it) (o_unit it) of
        None \<Rightarrow> (o_name it, Item_hilang)
      | Some row \<Rightarrow> (o_name it, Stok_diminta (i_quantity row) (o_quantity it)))"

definition out_row :: "string \<Rightarrow> string \<Rightarrow> real \<Rightarrow> string \<Rightarrow> out_line" where
  "out_row name unit quantity note =
     \<lparr>o_name = name, o_unit = unit, o_quantity = quantity, o_note = note\<rparr>"

section \<open>Properties\<close>

subsection \<open>What the helpers leave alone\<close>

lemma datetime_now_simps [simp]:
  "items (snd (datetime_now s)) = items s"
  "transactions (snd (datetime_now s)) = transactions s"
  "item_seq (snd (datetime_now s)) = item_seq s"
  "fst (datetime_now s) = clock s (ticks s)"
  by (simp_all add: datetime_now_def)

lemma generate_trx_code_db [simp]:
  "items (snd (generate_trx_code ty s)) = items s"
  "transactions (snd (generate_trx_code ty s)) = transactions s"
  "item_seq (snd (generate_trx_code ty s)) = item_seq s"
  by (simp_all add: generate_trx_code_def datetime_now_def randint_100_999_def)

lemma select_item_update_item:
  "select_item tbl n u = Some r \<Longrightarrow>
   select_item (update_item (i_id r) q c m rk e t tbl) n u =
     Some (r\<lparr>i_quantity := q, i_category := c, i_min_stock := m, i_rack_location := rk,
             i_expiry_date := e, i_created_at := t, i_updated_at := t\<rparr>)"
  by (induction tbl) (auto simp: select_item_def update_item_def)

lemma select_item_update_quantity:
  "select_item tbl n u = Some r \<Longrightarrow>
   select_item (update_quantity (i_id r) q tbl) n u = Some (r\<lparr>i_quantity := q\<rparr>)"
  by (induction tbl) (auto simp: select_item_def update_quantity_def)

lemma strip_Beras: "strip '' Beras '' = ''Beras''" "strip ''Beras'' = ''Beras''"
  by (simp_all add: strip_def isspace_def whitespace_def)

subsection \<open>Receipt of an item that exists\<close>

text \<open>
  C8. When \<^verbatim>\<open>upsert_item\<close> finds a row for the stripped name and the unit, it returns
  the id of that row; afterwards the row holds the old quantity plus the received one,
  the category, minimum stock, rack location and expiry date that were passed, and the
  clock reading in both \<^verbatim>\<open>created_at\<close> and \<^verbatim>\<open>updated_at\<close>, while its id, name and
  unit are the old ones. The rows with another id, the ids, names and units of all rows
  and the transactions are unchanged.
\<close>

theorem upsert_item_existing:
  assumes "select_item (items s) (strip name) unit = Some row"
  shows "fst (upsert_item name category unit quantity min_stock rack_location expiry_date s)
           = i_id row
       \<and> select_item
            (items (snd (upsert_item name category unit quantity min_stock rack_location
                           expiry_date s))) (strip name) unit
           = Some (row\<lparr>i_quantity := i_quantity row + quantity, i_category := category,
                       i_min_stock := min_stock, i_rack_location := rack_location,
                       i_expiry_date := expiry_date, i_created_at := clock s (ticks s),
                       i_updated_at := clock s (ticks s)\<rparr>)
       \<and> filter (\<lambda>r. i_id r \<noteq> i_id row)
            (items (snd (upsert_item name category unit quantity min_stock rack_location
                           expiry_date s)))
           = filter (\<lambda>r. i_id r \<noteq> i_id row) (items s)
       \<and> map (\<lambda>r. (i_id r, i_name r, i_unit r))
            (items (snd (upsert_item name category unit quantity min_stock rack_location
                           expiry_date s)))
           = map (\<lambda>r. (i_id r, i_name r, i_unit r)) (items s)
       \<and> transactions (snd (upsert_item name category unit quantity min_stock rack_location
                           expiry_date s)) = transactions s"
proof -
  have u: "upsert_item name category unit quantity min_stock rack_location expiry_date s =
      (i_id row, (snd (datetime_now s))\<lparr>items := update_item (i_id row) (i_quantity row + quantity)
          category min_stock rack_location expiry_date (clock s (ticks s)) (items s)\<rparr>)"
    using assms by (simp add: upsert_item_def datetime_now_def Let_def)
  have f: "filter (\<lambda>r. i_id r \<noteq> i) (update_item i q c m rk e t tbl) = filter (\<lambda>r. i_id r \<noteq> i) tbl"
    for i q c m rk e t tbl
    by (induction tbl) (auto simp: update_item_def)
  have m: "map (\<lambda>r. (i_id r, i_name r, i_unit r)) (update_item i q c m rk e t tbl)
      = map (\<lambda>r. (i_id r, i_name r, i_unit r)) tbl" for i q c m rk e t tbl
    by (induction tbl) (auto simp: update_item_def)
  show ?thesis
    unfolding u using assms by (simp add: select_item_update_item f m)
qed

theorem upsert_item_existing_witness:
  "select_item (items (store_of [item_of 1 ''Beras'' ''kg'' 5])) (strip '' Beras '') ''kg''
     = Some (item_of 1 ''Beras'' ''kg'' 5)
   \<and> fst (upsert_item '' Beras '' ''Pangan'' ''kg'' 10 2 ''R1'' None
             (store_of [item_of 1 ''Beras'' ''kg'' 5])) = 1
   \<and> select_item (items (snd (upsert_item '' Beras '' ''Pangan'' ''kg'' 10 2 ''R1'' None
             (store_of [item_of 1 ''Beras'' ''kg'' 5])))) ''Beras'' ''kg''
     = Some ((item_of 1 ''Beras'' ''kg'' 15)\<lparr>i_category := ''Pangan'', i_min_stock := 2,
               i_rack_location := ''R1'', i_created_at := t0\<lparr>ts_hour := 10\<rparr>,
               i_updated_at := t0\<lparr>ts_hour := 10\<rparr>\<rparr>)"
proof -
  have h: "select_item (items (store_of [item_of 1 ''Beras'' ''kg'' 5])) (strip '' Beras '') ''kg''
     = Some (item_of 1 ''Beras'' ''kg'' 5)"
    by (simp add: strip_Beras select_item_def store_of_def item_of_def)
  show ?thesis
    using h upsert_item_existing [OF h, of "''Pangan''" 10 2 "''R1''" None]
    by (simp add: strip_Beras store_of_def item_of_def t0_def)
qed

subsection \<open>Issue of more than the stock\<close>

text \<open>
  C4. When the item exists and the requested quantity exceeds its stock,
  \<^verbatim>\<open>adjust_item_for_out\<close> returns the message that carries the stock found and leaves
  the state as it is. Form \<^verbatim>\<open>out_single\<close> then shows an error and changes neither the
  items nor the transactions; the error is the one about the stock, with the stock found
  and the quantity asked for, unless a field of the form is empty or the quantity is not
  positive, which the form reports first.
\<close>

theorem issue_insufficient:
  assumes "select_item (items s) name unit = Some row" and "i_quantity row < quantity"
  shows "adjust_item_for_out name unit quantity s = (Inl (Stok_tidak_cukup (i_quantity row)), s)
       \<and> fst (out_single name unit quantity requester note s)
           = Failed (if name = [] \<or> quantity \<le> 0 \<or> unit = [] \<or> requester = []
                     then Fields_required else Stock_short (i_quantity row) quantity)
       \<and> items (snd (out_single name unit quantity requester note s)) = items s
       \<and> transactions (snd (out_single name unit quantity requester note s)) = transactions s"
proof -
  obtain c s1 where g: "generate_trx_code OUT s = (c, s1)" by (cases "generate_trx_code OUT s")
  have i: "items s1 = items s" "transactions s1 = transactions s"
    using generate_trx_code_db [of OUT s] g by simp_all
  show ?thesis
    using assms by (simp add: adjust_item_for_out_def out_single_def g i)
qed

theorem issue_insufficient_witness:
  "select_item (items (store_of [item_of 1 ''Beras'' ''kg'' 5])) ''Beras'' ''kg''
     = Some (item_of 1 ''Beras'' ''kg'' 5)
   \<and> i_quantity (item_of 1 ''Beras'' ''kg'' 5) < 8
   \<and> adjust_item_for_out ''Beras'' ''kg'' 8 (store_of [item_of 1 ''Beras'' ''kg'' 5])
     = (Inl (Stok_tidak_cukup 5), store_of [item_of 1 ''Beras'' ''kg'' 5])
   \<and> fst (out_single ''Beras'' ''kg'' 8 ''Budi'' [] (store_of [item_of 1 ''Beras'' ''kg'' 5]))
     = Failed (Stock_short 5 8)
   \<and> transactions (snd (out_single ''Beras'' ''kg'' 8 ''Budi'' []
        (store_of [item_of 1 ''Beras'' ''kg'' 5]))) = []"
proof -
  have h: "select_item (items (store_of [item_of 1 ''Beras'' ''kg'' 5])) ''Beras'' ''kg''
     = Some (item_of 1 ''Beras'' ''kg'' 5)"
    by (simp add: select_item_def store_of_def item_of_def)
  have q: "i_quantity (item_of 1 ''Beras'' ''kg'' 5) < 8"
    by (simp add: item_of_def)
  show ?thesis
    using h q issue_insufficient [OF h q, of "''Budi''" "[]"]
    by (simp add: store_of_def item_of_def)
qed

subsection \<open>Totals of a period\<close>

lemma fillna0_groupby_sum:
  "fillna0 (groupby_sum df k) =
     sum_list (map t_quantity (filter (\<lambda>t. (t_name t, t_unit t) = k) df))"
proof (cases "k \<in> set (map (\<lambda>t. (t_name t, t_unit t)) df)")
  case True
  then show ?thesis by (simp add: groupby_sum_def fillna0_def)
next
  case False
  then have "filter (\<lambda>t. (t_name t, t_unit t) = k) df = []"
    by (auto simp: filter_empty_conv)
  with False show ?thesis by (simp add: groupby_sum_def fillna0_def)
qed

lemma groupby_sum_None:
  "groupby_sum df k = None \<Longrightarrow>
     sum_list (map t_quantity (filter (\<lambda>t. (t_name t, t_unit t) = k) df)) = 0"
  using fillna0_groupby_sum [of df k] by (simp add: fillna0_def)

lemma spec_total_filter:
  "spec_total ty date_from date_to name unit df =
     sum_list (map t_quantity (filter (\<lambda>t. (t_name t, t_unit t) = (name, unit))
       (filter (\<lambda>t. t_type t = ty) (filter (mask date_from date_to) df))))"
proof -
  have "(\<lambda>t. t_type t = ty \<and> t_name t = name \<and> t_unit t = unit
              \<and> spec_in_window date_from date_to (date_of (t_created_at t)))
      = (\<lambda>t. (mask date_from date_to t \<and> t_type t = ty) \<and> (t_name t, t_unit t) = (name, unit))"
    by (auto simp: mask_def spec_in_window_def)
  then show ?thesis
    by (simp add: spec_total_def)
qed

text \<open>
  C6. \<^verbatim>\<open>totals_for_period\<close> returns one row for every row of the table of items, in
  the order of the table, with the name and unit of the item, the sum of the quantities
  of the \<^verbatim>\<open>in\<close> movements and of the \<^verbatim>\<open>out\<close> movements that have this name and unit
  and a date inside the window (both ends included, a missing end unrestricted), which
  is 0 when there is none, and the quantity the item has now, whatever the window.
\<close>

theorem totals_for_period_rows:
  "totals_for_period s df date_from date_to =
     map (\<lambda>r. \<lparr>r_name = i_name r, r_unit = i_unit r,
                total_masuk = spec_total IN date_from date_to (i_name r) (i_unit r) df,
                total_keluar = spec_total OUT date_from date_to (i_name r) (i_unit r) df,
                stok_akhir = i_quantity r\<rparr>) (items s)"
proof (cases "df = []")
  case True
  then show ?thesis by (simp add: totals_for_period_def spec_total_def)
next
  case False
  have tin: "spec_total IN date_from date_to (i_name r) (i_unit r) df
      = fillna0 (groupby_sum (filter (\<lambda>t. t_type t = IN) (filter (mask date_from date_to) df))
          (i_name r, i_unit r))" for r
    unfolding spec_total_filter fillna0_groupby_sum ..
  have tout: "spec_total OUT date_from date_to (i_name r) (i_unit r) df
      = fillna0 (groupby_sum (filter (\<lambda>t. t_type t = OUT) (filter (mask date_from date_to) df))
          (i_name r, i_unit r))" for r
    unfolding spec_total_filter fillna0_groupby_sum ..
  have row: "(case merge_outer (groupby_sum (filter (\<lambda>t. t_type t = IN) (filter (mask date_from date_to) df)))
                 (groupby_sum (filter (\<lambda>t. t_type t = OUT) (filter (mask date_from date_to) df)))
                 (i_name r, i_unit r) of
               None \<Rightarrow> \<lparr>r_name = i_name r, r_unit = i_unit r, total_masuk = 0,
                          total_keluar = 0, stok_akhir = i_quantity r\<rparr>
             | Some (tin, tout) \<Rightarrow>
                  \<lparr>r_name = i_name r, r_unit = i_unit r, total_masuk = tin,
                    total_keluar = tout, stok_akhir = i_quantity r\<rparr>)
           = \<lparr>r_name = i_name r, r_unit = i_unit r,
                total_masuk = spec_total IN date_from date_to (i_name r) (i_unit r) df,
                total_keluar = spec_total OUT date_from date_to (i_name r) (i_unit r) df,
                stok_akhir = i_quantity r\<rparr>" for r
    unfolding tin tout by (simp add: merge_outer_def fillna0_def del: filter_filter)
  show ?thesis
    using False by (simp add: totals_for_period_def Let_def row del: filter_filter)
qed

subsection \<open>Comparison of two months\<close>

lemma compare_months_raises: "compare_months df month_a month_b items_list = Inl AttributeError"
  by (simp add: compare_months_def month_start_def to_created_at_def)

text \<open>
  C7. For an item with \<^verbatim>\<open>out\<close> totals 10 in January and 15 in February the claim
  gives a difference of 5 and a change of 50 percent. \<^verbatim>\<open>compare_months\<close> raises
  \<^verbatim>\<open>AttributeError\<close> on this input, as on every other; the lines after the failing
  one would give the row of the claim.
\<close>

theorem compare_months_jan_feb:
  "compare_months [out_move ''Beras'' 10 1, out_move ''Beras'' 15 2] (2024, 1) (2024, 2) []
     = Inl AttributeError
   \<and> pivot_compare [((2024, 1), out_move ''Beras'' 10 1), ((2024, 2), out_move ''Beras'' 15 2)]
       (2024, 1) (2024, 2) []
     = [\<lparr>c_name = ''Beras'', c_month_a = Some 10, c_month_b = Some 15, c_difference = Some 5,
         c_pct_change = Some 50\<rparr>]"
  by (simp add: compare_months_def month_start_def to_created_at_def pivot_compare_def
      out_move_def t0_def)


subsection \<open>Stock is never negative\<close>

lemma bad_rows_empty:
  assumes "bad_rows rows = []" and "(n, q, u) \<in> set rows"
  shows "n \<noteq> [] \<and> 0 < q \<and> u \<noteq> []"
proof -
  from assms(2) obtain i where i: "i < length rows" "rows ! i = (n, q, u)"
    by (auto simp: in_set_conv_nth)
  then have "(i, (n, q, u)) \<in> set (enumerate 0 rows)"
    by (simp add: in_set_enumerate_eq)
  moreover from assms(1) have
    "\<forall>x\<in>set (enumerate 0 rows). \<not> (case x of (idx, (name, quantity, unit)) \<Rightarrow>
        name = [] \<or> quantity \<le> 0 \<or> unit = [])"
    by (simp add: bad_rows_def filter_empty_conv)
  ultimately show ?thesis by fastforce
qed

lemma add_transaction_record_items [simp]:
  "items (add_transaction_record ty i n q u rq sp nt b c e s) = items s"
  by (simp add: add_transaction_record_def datetime_now_def)

lemma list_all_update_item:
  "0 \<le> nq \<Longrightarrow> list_all (\<lambda>r. 0 \<le> i_quantity r) tbl \<Longrightarrow>
     list_all (\<lambda>r. 0 \<le> i_quantity r) (update_item i nq c m rk e t tbl)"
  by (induction tbl) (simp_all add: update_item_def)

lemma list_all_update_quantity:
  "0 \<le> nq \<Longrightarrow> list_all (\<lambda>r. 0 \<le> i_quantity r) tbl \<Longrightarrow>
     list_all (\<lambda>r. 0 \<le> i_quantity r) (update_quantity i nq tbl)"
  by (induction tbl) (simp_all add: update_quantity_def)

lemma select_item_mem: "select_item tbl n u = Some row \<Longrightarrow> row \<in> set tbl"
  by (auto simp: select_item_def find_Some_iff)

lemma nonneg_upsert_item:
  assumes "0 \<le> q" and "nonneg_stock s"
  shows "nonneg_stock (snd (upsert_item n c u q m rk e s))"
proof (cases "select_item (items s) (strip n) u")
  case None
  then show ?thesis
    using assms by (simp add: upsert_item_def datetime_now_def nonneg_stock_def Let_def)
next
  case (Some row)
  from select_item_mem [OF Some] assms(2) have "0 \<le> i_quantity row"
    by (simp add: nonneg_stock_def list_all_iff)
  with assms(1) have "0 \<le> i_quantity row + q" by simp
  from list_all_update_item [OF this] assms(2) Some show ?thesis
    by (simp add: upsert_item_def datetime_now_def nonneg_stock_def Let_def)
qed

lemma nonneg_adjust_item_for_out:
  assumes "nonneg_stock s"
  shows "nonneg_stock (snd (adjust_item_for_out n u q s))"
proof (cases "select_item (items s) n u")
  case None
  then show ?thesis using assms by (simp add: adjust_item_for_out_def)
next
  case (Some row)
  show ?thesis
  proof (cases "i_quantity row < q")
    case True
    with Some assms show ?thesis by (simp add: adjust_item_for_out_def)
  next
    case False
    then have "0 \<le> i_quantity row - q" by simp
    from list_all_update_quantity [OF this] assms Some False show ?thesis
      by (simp add: adjust_item_for_out_def nonneg_stock_def)
  qed
qed

lemma nonneg_generate: "nonneg_stock (snd (generate_trx_code ty s)) = nonneg_stock s"
  by (simp add: nonneg_stock_def)

lemma nonneg_in_single:
  assumes "nonneg_stock s"
  shows "nonneg_stock (snd (in_single n u q c m sp rk s))"
proof -
  obtain code s1 where g: "generate_trx_code IN s = (code, s1)"
    by (cases "generate_trx_code IN s")
  then have s1: "nonneg_stock s1"
    using assms nonneg_generate [of IN s] by simp
  show ?thesis
  proof (cases "n = [] \<or> q \<le> 0 \<or> u = []")
    case True
    then show ?thesis using s1 by (simp add: in_single_def g)
  next
    case False
    then have "0 \<le> q" by simp
    from nonneg_upsert_item [OF this s1, of n c u m rk None] False show ?thesis
      by (simp add: in_single_def g nonneg_stock_def case_prod_beta)
  qed
qed

lemma nonneg_in_multi_step:
  assumes "0 \<le> l_quantity it" and "nonneg_stock s"
  shows "nonneg_stock (in_multi_step code sp nt it s)"
  using nonneg_upsert_item [OF assms, of "l_name it" "l_category it" "l_unit it" "l_min_stock it"
      "l_rack_location it" "Some (l_expiry_date it)"]
  by (simp add: in_multi_step_def nonneg_stock_def case_prod_beta)

lemma nonneg_fold_in_multi_step:
  "\<forall>it\<in>set rows. 0 \<le> l_quantity it \<Longrightarrow> nonneg_stock s \<Longrightarrow>
     nonneg_stock (fold (in_multi_step code sp nt) rows s)"
  by (induction rows arbitrary: s) (simp_all add: nonneg_in_multi_step)

lemma nonneg_in_multi_form:
  assumes "nonneg_stock s"
  shows "nonneg_stock (snd (in_multi_form sp nt rows s))"
proof (cases "rows = [] \<or> bad_rows (map (\<lambda>it. (l_name it, l_quantity it, l_unit it)) rows) \<noteq> []")
  case True
  then show ?thesis using assms by (auto simp: in_multi_form_def Let_def)
next
  case False
  then have b: "bad_rows (map (\<lambda>it. (l_name it, l_quantity it, l_unit it)) rows) = []" by simp
  have q: "\<forall>it\<in>set rows. 0 \<le> l_quantity it"
  proof
    fix it assume "it \<in> set rows"
    then have "(l_name it, l_quantity it, l_unit it)
        \<in> set (map (\<lambda>it. (l_name it, l_quantity it, l_unit it)) rows)" by force
    from bad_rows_empty [OF b this] show "0 \<le> l_quantity it" by simp
  qed
  obtain code s1 where g: "generate_trx_code IN s = (code, s1)"
    by (cases "generate_trx_code IN s")
  then have s1: "nonneg_stock s1"
    using assms nonneg_generate [of IN s] by simp
  from False show ?thesis
    by (simp add: in_multi_form_def Let_def g nonneg_fold_in_multi_step [OF q s1])
qed

lemma nonneg_out_single:
  assumes "nonneg_stock s"
  shows "nonneg_stock (snd (out_single n u q rq nt s))"
proof -
  obtain code s1 where g: "generate_trx_code OUT s = (code, s1)"
    by (cases "generate_trx_code OUT s")
  then have s1: "nonneg_stock s1"
    using assms nonneg_generate [of OUT s] by simp
  from nonneg_adjust_item_for_out [OF s1, of n u q] s1 show ?thesis
    by (simp add: out_single_def g nonneg_stock_def case_prod_beta split: option.splits)
qed

lemma nonneg_out_multi_step:
  assumes "nonneg_stock s"
  shows "nonneg_stock (out_multi_step code rq it s)"
  using nonneg_adjust_item_for_out [OF assms, of "o_name it" "o_unit it" "o_quantity it"]
  by (simp add: out_multi_step_def nonneg_stock_def case_prod_beta)

lemma nonneg_fold_out_multi_step:
  "nonneg_stock s \<Longrightarrow> nonneg_stock (fold (out_multi_step code rq) rows s)"
  by (induction rows arbitrary: s) (simp_all add: nonneg_out_multi_step)

lemma nonneg_out_multi_form:
  assumes "nonneg_stock s"
  shows "nonneg_stock (snd (out_multi_form rq rows s))"
proof -
  obtain code s1 where g: "generate_trx_code OUT s = (code, s1)"
    by (cases "generate_trx_code OUT s")
  then have s1: "nonneg_stock s1"
    using assms nonneg_generate [of OUT s] by simp
  from assms nonneg_fold_out_multi_step [OF s1] show ?thesis
    by (simp add: out_multi_form_def Let_def g)
qed

lemma nonneg_apply_op: "nonneg_stock s \<Longrightarrow> nonneg_stock (apply_op op s)"
  by (cases op)
    (simp_all add: apply_op_def nonneg_in_single nonneg_in_multi_form nonneg_out_single
      nonneg_out_multi_form)

text \<open>
  C1. When no item has a negative quantity, no item has one in any state that a
  sequence of ledger operations (single and batch receipts, single and batch issues)
  passes through, the first and the last state included. The store is empty when it
  is created, so this holds for every state the forms reach from it. An issue takes
  from a row only what the row has.
\<close>

theorem stock_never_negative:
  assumes "nonneg_stock s"
  shows "list_all nonneg_stock (run ops s)"
  using assms by (induction ops arbitrary: s) (simp_all add: nonneg_apply_op)


lemmas eval_defs = apply_op_def in_single_def out_single_def in_multi_form_def out_multi_form_def
  in_multi_step_def out_multi_step_def generate_trx_code_def datetime_now_def randint_100_999_def
  upsert_item_def adjust_item_for_out_def add_transaction_record_def select_item_def
  update_item_def update_quantity_def next_rowid_def strip_def isspace_def whitespace_def
  store_of_def item_of_def nonneg_stock_def bad_rows_def insufficient_def Let_def

theorem stock_never_negative_witness:
  "nonneg_stock (store_of [])
   \<and> list_all nonneg_stock
        (run [Receive_single ''Beras'' ''kg'' 10 [] 0 ''Toko'' [],
              Issue_single ''Beras'' ''kg'' 4 ''Budi'' [],
              Issue_single ''Beras'' ''kg'' 9 ''Budi'' []] (store_of []))
   \<and> map (\<lambda>s. map i_quantity (items s))
        (run [Receive_single ''Beras'' ''kg'' 10 [] 0 ''Toko'' [],
              Issue_single ''Beras'' ''kg'' 4 ''Budi'' [],
              Issue_single ''Beras'' ''kg'' 9 ''Budi'' []] (store_of []))
       = [[], [10], [6], [6]]"
proof -
  have h: "nonneg_stock (store_of [])"
    by (simp add: nonneg_stock_def store_of_def)
  have e: "map (\<lambda>s. map i_quantity (items s))
        (run [Receive_single ''Beras'' ''kg'' 10 [] 0 ''Toko'' [],
              Issue_single ''Beras'' ''kg'' 4 ''Budi'' [],
              Issue_single ''Beras'' ''kg'' 9 ''Budi'' []] (store_of []))
       = [[], [10], [6], [6]]"
    by (simp add: eval_defs)
  show ?thesis
    using h e stock_never_negative [OF h, of "[Receive_single ''Beras'' ''kg'' 10 [] 0 ''Toko'' [],
              Issue_single ''Beras'' ''kg'' 4 ''Budi'' [],
              Issue_single ''Beras'' ''kg'' 9 ''Budi'' []]"] by simp
qed


subsection \<open>Batch issue\<close>

lemma insufficient_reasons:
  "insufficient tbl rows = map (reason_for tbl) (filter (fails_stock_check tbl) rows)"
  by (induction rows)
    (simp_all add: insufficient_def fails_stock_check_def reason_for_def split: option.splits)

lemma insufficient_Nil_iff:
  "insufficient tbl rows = [] \<longleftrightarrow> \<not> list_ex (fails_stock_check tbl) rows"
  by (simp add: insufficient_reasons filter_empty_conv list_ex_iff)

lemma upt_small: "[0..<2] = [0, Suc 0]" "[0..<3] = [0, Suc 0, 2]" "[0..<4] = [0, Suc 0, 2, 3]"
  by (simp_all add: upt_rec)

lemma trx_code_example:
  "fst (generate_trx_code OUT (store_of tbl)) = ''TRX-OUT-20240115-103000-100''"
  "fst (generate_trx_code IN (store_of tbl)) = ''TRX-IN-20240115-103000-100''"
  by (simp_all add: generate_trx_code_def datetime_now_def randint_100_999_def store_of_def
      upper_type_def strftime_def pad_dec_def digit_char_def t0_def case_prod_beta upt_small)

lemma transactions_adjust [simp]:
  "transactions (snd (adjust_item_for_out n u q s)) = transactions s"
  by (simp add: adjust_item_for_out_def split: option.splits)

text \<open>
  C3. When the requester is filled in and every line has a name, a unit and a positive
  quantity, form \<^verbatim>\<open>out_multi_form\<close> decides on the table of items as it is before the
  batch: the batch is accepted exactly when no line, taken alone, fails the stock check
  against that table, and every reason of a rejection shows the stock of that table.
  Two lines for the same name and unit are each compared with the same stock.
\<close>

theorem batch_issue_check_on_snapshot:
  assumes "requester \<noteq> []" and "rows \<noteq> []"
    and "bad_rows (map (\<lambda>it. (o_name it, o_quantity it, o_unit it)) rows) = []"
  shows "fst (out_multi_form requester rows s) =
           (if list_ex (fails_stock_check (items s)) rows
            then Failed (Batch_rejected
                   (map (reason_for (items s)) (filter (fails_stock_check (items s)) rows)))
            else Success (fst (generate_trx_code OUT s)))"
proof (cases "list_ex (fails_stock_check (items s)) rows")
  case True
  then have "insufficient (items s) rows \<noteq> []"
    by (simp add: insufficient_Nil_iff)
  with assms True show ?thesis
    by (simp add: out_multi_form_def Let_def insufficient_reasons)
next
  case False
  then have "insufficient (items s) rows = []"
    by (simp add: insufficient_Nil_iff)
  with assms False show ?thesis
    by (simp add: out_multi_form_def Let_def case_prod_beta)
qed

theorem batch_issue_check_on_snapshot_witness:
  "''Budi'' \<noteq> [] \<and> [out_row ''A'' ''pcs'' 3 [], out_row ''A'' ''pcs'' 3 []] \<noteq> []
   \<and> bad_rows (map (\<lambda>it. (o_name it, o_quantity it, o_unit it))
        [out_row ''A'' ''pcs'' 3 [], out_row ''A'' ''pcs'' 3 []]) = []
   \<and> \<not> list_ex (fails_stock_check (items (store_of [item_of 1 ''A'' ''pcs'' 5])))
        [out_row ''A'' ''pcs'' 3 [], out_row ''A'' ''pcs'' 3 []]
   \<and> fst (out_multi_form ''Budi'' [out_row ''A'' ''pcs'' 3 [], out_row ''A'' ''pcs'' 3 []]
        (store_of [item_of 1 ''A'' ''pcs'' 5])) = Success ''TRX-OUT-20240115-103000-100''"
proof -
  have a: "''Budi'' \<noteq> []" by simp
  have b: "[out_row ''A'' ''pcs'' 3 [], out_row ''A'' ''pcs'' 3 []] \<noteq> []" by simp
  have c: "bad_rows (map (\<lambda>it. (o_name it, o_quantity it, o_unit it))
        [out_row ''A'' ''pcs'' 3 [], out_row ''A'' ''pcs'' 3 []]) = []"
    by (simp add: bad_rows_def out_row_def)
  have d: "\<not> list_ex (fails_stock_check (items (store_of [item_of 1 ''A'' ''pcs'' 5])))
        [out_row ''A'' ''pcs'' 3 [], out_row ''A'' ''pcs'' 3 []]"
    by (simp add: fails_stock_check_def select_item_def store_of_def item_of_def out_row_def)
  show ?thesis
    using a b c d
      batch_issue_check_on_snapshot [OF a b c, of "store_of [item_of 1 ''A'' ''pcs'' 5]"]
    by (simp add: trx_code_example)
qed

text \<open>
  C2, as amended. When at least one line of a batch issue names an item the table does
  not have or asks for more than its stock, the form rejects the batch and returns the
  state it was given: every stock is unchanged and no transaction is appended. The
  rejection lists one reason for every failing line, in the order of the lines, when the
  requester is filled in and every line has a name, a unit and a positive quantity;
  otherwise the form reports the missing requester, or the numbers of the lines with a
  missing field, instead.
\<close>

theorem batch_issue_all_or_nothing:
  assumes "list_ex (fails_stock_check (items s)) rows"
  shows "snd (out_multi_form requester rows s) = s
       \<and> fst (out_multi_form requester rows s) =
           Failed (if requester = [] then Requester_required
                   else if bad_rows (map (\<lambda>it. (o_name it, o_quantity it, o_unit it)) rows) \<noteq> []
                   then Rows_invalid
                          (bad_rows (map (\<lambda>it. (o_name it, o_quantity it, o_unit it)) rows))
                   else Batch_rejected
                          (map (reason_for (items s))
                             (filter (fails_stock_check (items s)) rows)))"
proof -
  from assms have r: "rows \<noteq> []" by auto
  from assms have "insufficient (items s) rows \<noteq> []"
    by (simp add: insufficient_Nil_iff)
  with r show ?thesis
    by (simp add: out_multi_form_def Let_def insufficient_reasons)
qed

theorem batch_issue_all_or_nothing_witness:
  "list_ex (fails_stock_check (items (store_of [item_of 1 ''A'' ''pcs'' 5, item_of 2 ''B'' ''pcs'' 5])))
     [out_row ''A'' ''pcs'' 3 [], out_row ''B'' ''pcs'' 10 []]
   \<and> snd (out_multi_form ''Budi'' [out_row ''A'' ''pcs'' 3 [], out_row ''B'' ''pcs'' 10 []]
        (store_of [item_of 1 ''A'' ''pcs'' 5, item_of 2 ''B'' ''pcs'' 5]))
      = store_of [item_of 1 ''A'' ''pcs'' 5, item_of 2 ''B'' ''pcs'' 5]
   \<and> fst (out_multi_form ''Budi'' [out_row ''A'' ''pcs'' 3 [], out_row ''B'' ''pcs'' 10 []]
        (store_of [item_of 1 ''A'' ''pcs'' 5, item_of 2 ''B'' ''pcs'' 5]))
      = Failed (Batch_rejected [(''B'', Stok_diminta 5 10)])"
proof -
  have h: "list_ex (fails_stock_check
        (items (store_of [item_of 1 ''A'' ''pcs'' 5, item_of 2 ''B'' ''pcs'' 5])))
     [out_row ''A'' ''pcs'' 3 [], out_row ''B'' ''pcs'' 10 []]"
    by (simp add: fails_stock_check_def select_item_def store_of_def item_of_def out_row_def)
  have r: "map (reason_for (items (store_of [item_of 1 ''A'' ''pcs'' 5, item_of 2 ''B'' ''pcs'' 5])))
      (filter (fails_stock_check
          (items (store_of [item_of 1 ''A'' ''pcs'' 5, item_of 2 ''B'' ''pcs'' 5])))
        [out_row ''A'' ''pcs'' 3 [], out_row ''B'' ''pcs'' 10 []])
      = [(''B'', Stok_diminta 5 10)]"
    by (simp add: fails_stock_check_def reason_for_def select_item_def store_of_def item_of_def
        out_row_def)
  have c: "bad_rows (map (\<lambda>it. (o_name it, o_quantity it, o_unit it))
        [out_row ''A'' ''pcs'' 3 [], out_row ''B'' ''pcs'' 10 []]) = []"
    by (simp add: bad_rows_def out_row_def)
  note t = batch_issue_all_or_nothing [OF h, of "''Budi''"]
  from t [unfolded r c] h show ?thesis by simp
qed

text \<open>
  C2, as stated, fails when the requester is left empty: with stock 5 of B, the batch of
  5 of Gula (absent) and 10 of B has two failing lines, and the form shows the one
  message that the requester is required.
\<close>

theorem batch_issue_requester_counterexample:
  "length (filter (fails_stock_check (items (store_of [item_of 1 ''B'' ''pcs'' 5])))
     [out_row ''Gula'' ''kg'' 5 [], out_row ''B'' ''pcs'' 10 []]) = 2
   \<and> out_multi_form [] [out_row ''Gula'' ''kg'' 5 [], out_row ''B'' ''pcs'' 10 []]
        (store_of [item_of 1 ''B'' ''pcs'' 5])
      = (Failed Requester_required, store_of [item_of 1 ''B'' ''pcs'' 5])"
  by (simp add: fails_stock_check_def select_item_def store_of_def item_of_def out_row_def
      out_multi_form_def)

text \<open>
  C9. A batch of two lines for the same name and unit, each asking for no more than the
  stock and together for more, with the requester, name and unit filled in: the batch is
  accepted; the first line takes its quantity from the row and nothing else changes in
  the table, so the stock left is the old one minus the first quantity; two transactions
  are appended under the code of the batch, the first with the id of the item, the second
  with no item id.
\<close>

theorem batch_issue_same_item_twice:
  assumes "name \<noteq> []" and "unit \<noteq> []" and "requester \<noteq> []"
    and "0 < q1" and "0 < q2"
    and "select_item (items s) name unit = Some row"
    and "q1 \<le> i_quantity row" and "q2 \<le> i_quantity row" and "i_quantity row < q1 + q2"
  shows "fst (out_multi_form requester [out_row name unit q1 n1, out_row name unit q2 n2] s)
           = Success (fst (generate_trx_code OUT s))
       \<and> items (snd (out_multi_form requester
                        [out_row name unit q1 n1, out_row name unit q2 n2] s))
           = update_quantity (i_id row) (i_quantity row - q1) (items s)
       \<and> select_item (items (snd (out_multi_form requester
                        [out_row name unit q1 n1, out_row name unit q2 n2] s))) name unit
           = Some (row\<lparr>i_quantity := i_quantity row - q1\<rparr>)
       \<and> map (\<lambda>t. (t_type t, t_item_id t, t_name t, t_quantity t, t_unit t, t_bundle_code t))
            (transactions (snd (out_multi_form requester
                        [out_row name unit q1 n1, out_row name unit q2 n2] s)))
           = map (\<lambda>t. (t_type t, t_item_id t, t_name t, t_quantity t, t_unit t, t_bundle_code t))
               (transactions s)
             @ [(OUT, Some (i_id row), name, q1, unit, fst (generate_trx_code OUT s)),
                (OUT, None, name, q2, unit, fst (generate_trx_code OUT s))]"
proof -
  obtain code s1 where g: "generate_trx_code OUT s = (code, s1)"
    by (cases "generate_trx_code OUT s")
  have i: "items s1 = items s" "transactions s1 = transactions s"
    using generate_trx_code_db [of OUT s] g by simp_all
  have bad: "bad_rows (map (\<lambda>it. (o_name it, o_quantity it, o_unit it))
        [out_row name unit q1 n1, out_row name unit q2 n2]) = []"
    using assms by (simp add: bad_rows_def out_row_def)
  have ok: "insufficient (items s) [out_row name unit q1 n1, out_row name unit q2 n2] = []"
    using assms by (simp add: insufficient_def out_row_def)
  have form: "out_multi_form requester [out_row name unit q1 n1, out_row name unit q2 n2] s
      = (Success code, out_multi_step code requester (out_row name unit q2 n2)
                         (out_multi_step code requester (out_row name unit q1 n1) s1))"
    using assms(3) bad ok by (simp add: out_multi_form_def Let_def g)
  have a1: "adjust_item_for_out name unit q1 s1
      = (Inr (i_id row), s1\<lparr>items := update_quantity (i_id row) (i_quantity row - q1) (items s)\<rparr>)"
    using assms by (simp add: adjust_item_for_out_def i)
  define s2 where "s2 = out_multi_step code requester (out_row name unit q1 n1) s1"
  have s2i: "items s2 = update_quantity (i_id row) (i_quantity row - q1) (items s)"
    by (simp add: s2_def out_multi_step_def out_row_def a1)
  have s2t: "transactions s2 = transactions s @
      [\<lparr>t_type = OUT, t_item_id = Some (i_id row), t_name = name, t_quantity = q1,
        t_unit = unit, t_requester = Some requester, t_supplier = None, t_note = n1,
        t_bundle_code = code, t_trx_code = code, t_expiry_date = None,
        t_created_at = clock s1 (ticks s1)\<rparr>]"
    by (simp add: s2_def out_multi_step_def out_row_def a1 add_transaction_record_def
        datetime_now_def i)
  have sel2: "select_item (items s2) name unit = Some (row\<lparr>i_quantity := i_quantity row - q1\<rparr>)"
    using assms(6) by (simp add: s2i select_item_update_quantity)
  have a2: "adjust_item_for_out name unit q2 s2 = (Inl (Stok_tidak_cukup (i_quantity row - q1)), s2)"
    using assms by (simp add: adjust_item_for_out_def sel2)
  define s3 where "s3 = out_multi_step code requester (out_row name unit q2 n2) s2"
  have s3i: "items s3 = items s2"
    by (simp add: s3_def out_multi_step_def out_row_def a2)
  have s3t: "transactions s3 = transactions s2 @
      [\<lparr>t_type = OUT, t_item_id = None, t_name = name, t_quantity = q2,
        t_unit = unit, t_requester = Some requester, t_supplier = None, t_note = n2,
        t_bundle_code = code, t_trx_code = code, t_expiry_date = None,
        t_created_at = clock s2 (ticks s2)\<rparr>]"
    by (simp add: s3_def out_multi_step_def out_row_def a2 add_transaction_record_def
        datetime_now_def)
  have form': "out_multi_form requester [out_row name unit q1 n1, out_row name unit q2 n2] s
      = (Success code, s3)"
    by (simp add: form s3_def s2_def)
  show ?thesis
    by (simp add: form' g s3i s3t s2i s2t sel2 [unfolded s2i])
qed

theorem batch_issue_same_item_twice_witness:
  "''A'' \<noteq> [] \<and> ''pcs'' \<noteq> [] \<and> ''Budi'' \<noteq> [] \<and> (0::real) < 3
   \<and> select_item (items (store_of [item_of 1 ''A'' ''pcs'' 5])) ''A'' ''pcs''
       = Some (item_of 1 ''A'' ''pcs'' 5)
   \<and> 3 \<le> i_quantity (item_of 1 ''A'' ''pcs'' 5)
   \<and> i_quantity (item_of 1 ''A'' ''pcs'' 5) < 3 + 3
   \<and> fst (out_multi_form ''Budi'' [out_row ''A'' ''pcs'' 3 [], out_row ''A'' ''pcs'' 3 []]
        (store_of [item_of 1 ''A'' ''pcs'' 5])) = Success ''TRX-OUT-20240115-103000-100''
   \<and> map i_quantity
        (items (snd (out_multi_form ''Budi''
           [out_row ''A'' ''pcs'' 3 [], out_row ''A'' ''pcs'' 3 []]
           (store_of [item_of 1 ''A'' ''pcs'' 5])))) = [2]
   \<and> map (\<lambda>t. (t_type t, t_item_id t, t_name t, t_quantity t, t_unit t, t_bundle_code t))
        (transactions (snd (out_multi_form ''Budi''
           [out_row ''A'' ''pcs'' 3 [], out_row ''A'' ''pcs'' 3 []]
           (store_of [item_of 1 ''A'' ''pcs'' 5]))))
       = [(OUT, Some 1, ''A'', 3, ''pcs'', ''TRX-OUT-20240115-103000-100''),
          (OUT, None, ''A'', 3, ''pcs'', ''TRX-OUT-20240115-103000-100'')]"
proof -
  have n: "''A'' \<noteq> []" "''pcs'' \<noteq> []" "''Budi'' \<noteq> []" by simp_all
  have q: "(0::real) < 3" by simp
  have h: "select_item (items (store_of [item_of 1 ''A'' ''pcs'' 5])) ''A'' ''pcs''
       = Some (item_of 1 ''A'' ''pcs'' 5)"
    by (simp add: select_item_def store_of_def item_of_def)
  have b: "3 \<le> i_quantity (item_of 1 ''A'' ''pcs'' 5)"
    "i_quantity (item_of 1 ''A'' ''pcs'' 5) < 3 + 3"
    by (simp_all add: item_of_def)
  have i: "items (store_of [item_of 1 ''A'' ''pcs'' 5]) = [item_of 1 ''A'' ''pcs'' 5]"
    "transactions (store_of [item_of 1 ''A'' ''pcs'' 5]) = []"
    by (simp_all add: store_of_def)
  note t = batch_issue_same_item_twice [OF n q q h b(1) b(1) b(2), of "[]" "[]",
      unfolded trx_code_example i]
  show ?thesis
    using n q h b t
    by (simp add: store_of_def update_quantity_def item_of_def)
qed

end
